theory Spec2Isabelle
  imports Main Complex_Main "HOL-Library.AList"
begin

section \<open>Runtime values of the host\<close>

text \<open>
  The serializer of \<^verbatim>\<open>src/main.js\<close> receives an arbitrary JavaScript value. Primitive
  values are modelled by value; objects live in a heap and are denoted by their address, so
  that identity (what the \<^verbatim>\<open>WeakSet\<close> of the source compares) is equality of addresses.

  A number is a double: not-a-number, one of the two infinities, or a finite value (every
  finite double is a real). A symbol is represented by its optional description.

  The model covers ordinary objects and the host objects the source tests for. It leaves out
  proxies, getters with side effects, arrays with holes or accessor elements, and prototypes of
  the built-in types that a program has patched.
\<close>

datatype jsnum = NaN | PosInf | NegInf | Finite real

type_synonym addr = nat

datatype jsval =
    VUndefined
  | VNull
  | VBool bool
  | VNum jsnum
  | VStr string
  | VSym "string option"
  | VBigInt int
  | Ref addr

text \<open>
  Every exception of the model is an error object, identified by its \<^verbatim>\<open>message\<close>: the
  \<^verbatim>\<open>RangeError\<close> of \<^verbatim>\<open>toISOString\<close>, the \<^verbatim>\<open>TypeError\<close> of a failed string
  coercion, and whatever error a property getter throws. (A getter that throws a value which is
  not an error object is outside the model.)
\<close>

datatype thrown = Thrown string

text \<open>
  A property is a data property holding a value, or an accessor property whose getter either
  returns a value or throws. Getters have no side effects in the model.
\<close>

datatype slot = Data jsval | Accessor "thrown + jsval"

text \<open>What the host reports about a DOM node (\<^verbatim>\<open>value instanceof Node\<close>).\<close>

record dom_node =
  nodeName :: string
  nodeType :: nat
  node_id :: jsval
  className :: jsval
  isElement :: bool
  innerHTML :: string

text \<open>
  The kind of an object answers the \<^verbatim>\<open>instanceof\<close>, \<^verbatim>\<open>typeof\<close> and
  \<^verbatim>\<open>Array.isArray\<close> tests of the source and carries what the host methods read:
  a date carries its ISO string (\<open>None\<close> for an invalid date, on which \<^verbatim>\<open>toISOString\<close>
  throws a \<^verbatim>\<open>RangeError\<close>), a regular expression its source and flags, a function its
  source text, an array its elements.
\<close>

datatype kind =
    KError
  | KPromise
  | KDate "string option"
  | KRegExp string string
  | KNode dom_node
  | KFunction string
  | KArray "jsval list"
  | KObject

text \<open>
  An object has a kind, its own string-keyed properties in the order of
  \<^verbatim>\<open>Object.getOwnPropertyNames\<close> (enumerable or not; symbol keys are never listed there),
  and the properties it inherits along its prototype chain.
\<close>

record jsobj =
  kind :: kind
  own :: "(string \<times> slot) list"
  inherited :: "(string \<times> slot) list"

type_synonym heap = "addr \<Rightarrow> jsobj"

section \<open>Transport values\<close>

text \<open>
  The result of the serializer is a JavaScript value again: a value handed through as it is
  (\<open>Prim\<close>), a fresh object literal (\<open>Rec\<close>, the keys in insertion order), or the fresh
  array built by \<^verbatim>\<open>map\<close> (\<open>Seq\<close>).
\<close>

datatype tv =
    Prim jsval
  | Rec "(string \<times> tv) list"
  | Seq "tv list"

abbreviation str :: "string \<Rightarrow> tv" where
  "str s \<equiv> Prim (VStr s)"

section \<open>Property access and tests\<close>

fun slot_get :: "slot \<Rightarrow> thrown + jsval" where
  "slot_get (Data v) = Inr v"
| "slot_get (Accessor r) = r"

text \<open>
  \<^verbatim>\<open>value[key]\<close>: the own property if there is one, else the inherited one, else
  \<^verbatim>\<open>undefined\<close>. The source reads a property of a primitive in one place only, the
  \<^verbatim>\<open>name\<close> of a \<^verbatim>\<open>constructor\<close> property that holds a primitive: no primitive has a
  property of that name.
\<close>

fun Get :: "heap \<Rightarrow> jsval \<Rightarrow> string \<Rightarrow> thrown + jsval" where
  "Get h (Ref a) key =
     (case map_of (own (h a) @ inherited (h a)) key of
        None \<Rightarrow> Inr VUndefined
      | Some sl \<Rightarrow> slot_get sl)"
| "Get h v key = Inr VUndefined"

fun truthy :: "jsval \<Rightarrow> bool" where
  "truthy VUndefined = False"
| "truthy VNull = False"
| "truthy (VBool b) = b"
| "truthy (VNum n) = (n \<noteq> NaN \<and> n \<noteq> Finite 0)"
| "truthy (VStr s) = (s \<noteq> [])"
| "truthy (VSym d) = True"
| "truthy (VBigInt i) = (i \<noteq> 0)"
| "truthy (Ref a) = True"

text \<open>
  Line 47:
  \<^verbatim>\<open>value instanceof Error || (value && value.constructor && value.constructor.name === 'Error')\<close>.
  Reading \<^verbatim>\<open>constructor\<close> or its \<^verbatim>\<open>name\<close> may throw. The constructor of a primitive
  is its built-in wrapper (\<^verbatim>\<open>Number\<close>, \<^verbatim>\<open>String\<close>, \<^verbatim>\<open>Boolean\<close>, \<^verbatim>\<open>Symbol\<close>,
  \<^verbatim>\<open>BigInt\<close>), whose name is not \<^verbatim>\<open>'Error'\<close>.
\<close>

fun isError :: "heap \<Rightarrow> jsval \<Rightarrow> thrown + bool" where
  "isError h (Ref a) =
     (if kind (h a) = KError then Inr True
      else case Get h (Ref a) ''constructor'' of
             Inl e \<Rightarrow> Inl e
           | Inr c \<Rightarrow>
               if truthy c then
                 (case Get h c ''name'' of
                    Inl e \<Rightarrow> Inl e
                  | Inr n \<Rightarrow> Inr (n = VStr ''Error''))
               else Inr False)"
| "isError h v = Inr False"

section \<open>getErrorDetails\<close>

text \<open>\<^verbatim>\<open>obj[key] = v\<close> on an object literal: replace the entry or append it.\<close>

abbreviation assign :: "string \<Rightarrow> tv \<Rightarrow> (string \<times> tv) list \<Rightarrow> (string \<times> tv) list" where
  "assign \<equiv> AList.update"

text \<open>The loop of lines 25 to 33 over \<^verbatim>\<open>Object.getOwnPropertyNames(error)\<close>.\<close>

fun errorProps :: "heap \<Rightarrow> jsval \<Rightarrow> string list \<Rightarrow> (string \<times> tv) list \<Rightarrow> (string \<times> tv) list" where
  "errorProps h error [] errorObj = errorObj"
| "errorProps h error (key # keys) errorObj =
     errorProps h error keys
       (if key \<in> set [''name'', ''message'', ''stack''] then errorObj
        else case Get h error key of
               Inr v \<Rightarrow> assign key (Prim v) errorObj
             | Inl e \<Rightarrow> assign key (str ''[Unable to access property]'') errorObj)"

text \<open>
  Lines 16 to 36. The three standard fields are read outside of any \<^verbatim>\<open>try\<close>, in the order
  of the object literal; the values are stored as they are.
\<close>

definition getErrorDetails :: "heap \<Rightarrow> jsval \<Rightarrow> thrown + tv" where
  "getErrorDetails h error =
     (case Get h error ''name'' of
        Inl e \<Rightarrow> Inl e
      | Inr n \<Rightarrow>
     (case Get h error ''message'' of
        Inl e \<Rightarrow> Inl e
      | Inr m \<Rightarrow>
     (case Get h error ''stack'' of
        Inl e \<Rightarrow> Inl e
      | Inr s \<Rightarrow>
          Inr (Rec (errorProps h error
                 (case error of Ref a \<Rightarrow> map fst (own (h a)) | _ \<Rightarrow> [])
                 [(''__type'', str ''Error''), (''name'', Prim n),
                  (''message'', Prim m), (''stack'', Prim s)])))))"

section \<open>The records of the special types\<close>

definition depthMarker :: tv where
  "depthMarker = str ''[Max Depth Exceeded]''"

definition circularMarker :: tv where
  "circularMarker = str ''[Circular Reference]''"

text \<open>Line 61: \<^verbatim>\<open>'[Symbol: ' + (value.description || 'unknown') + ']'\<close>.\<close>

definition symbolTag :: "string option \<Rightarrow> tv" where
  "symbolTag d =
     str (''[Symbol: '' @ (case d of None \<Rightarrow> ''unknown'' | Some s \<Rightarrow> if s \<noteq> [] then s else ''unknown'') @ '']'')"

definition promiseRecord :: tv where
  "promiseRecord = Rec [(''__type'', str ''Promise''), (''state'', str ''pending'')]"

text \<open>Lines 80 to 85; \<^verbatim>\<open>toISOString\<close> throws on an invalid date.\<close>

definition dateRecord :: "string option \<Rightarrow> thrown + tv" where
  "dateRecord isoString =
     (case isoString of
        None \<Rightarrow> Inl (Thrown ''Invalid time value'')
      | Some s \<Rightarrow> Inr (Rec [(''__type'', str ''Date''), (''value'', str s)]))"

definition regExpRecord :: "string \<Rightarrow> string \<Rightarrow> tv" where
  "regExpRecord src flags =
     Rec [(''__type'', str ''RegExp''), (''source'', str src), (''flags'', str flags)]"

text \<open>Lines 96 to 105: the object literal always has its six keys.\<close>

definition domNodeRecord :: "dom_node \<Rightarrow> tv" where
  "domNodeRecord n =
     Rec [(''__type'', str ''DOMNode''),
          (''nodeName'', str (nodeName n)),
          (''nodeType'', Prim (VNum (Finite (real (nodeType n))))),
          (''id'', Prim (if truthy (node_id n) then node_id n else VUndefined)),
          (''className'', Prim (if truthy (className n) then className n else VUndefined)),
          (''innerHTML'', Prim (if isElement n then VStr (innerHTML n) else VUndefined))]"

text \<open>Lines 107 to 113.\<close>

definition functionRecord :: "heap \<Rightarrow> jsval \<Rightarrow> string \<Rightarrow> thrown + tv" where
  "functionRecord h f src =
     (case Get h f ''name'' of
        Inl e \<Rightarrow> Inl e
      | Inr n \<Rightarrow>
          Inr (Rec [(''__type'', str ''Function''),
                    (''name'', if truthy n then Prim n else str ''anonymous''),
                    (''source'', str (take 200 src @ (if length src > 200 then ''...'' else '''')))]))"

section \<open>serialize\<close>

text \<open>
  Lines 38 to 137. The state is the set \<^verbatim>\<open>seen\<close> of the enclosing call; it is returned
  also when the call throws, because the \<^verbatim>\<open>catch\<close> of the property loop goes on with the
  set as the failed call left it. \<open>serializeItems\<close> is the \<^verbatim>\<open>value.map\<close> of line 118,
  which stops at the first element that throws; \<open>serializeProps\<close> is the loop of lines 125 to
  132, whose body is wrapped in \<^verbatim>\<open>try\<close>. The final \<^verbatim>\<open>'[Unknown Type]'\<close> of line 136 is
  not reachable: a value that arrives there has \<^verbatim>\<open>typeof\<close> \<^verbatim>\<open>'object'\<close>.
\<close>

text \<open>
  The calls nest no deeper than the depth bound allows: a call of \<open>serialize\<close> at depth
  \<open>d\<close> has rank \<open>2 * (maxDepth + 1 - d)\<close>, the two loops started from it have the odd rank
  just below, and within a loop the remaining list gets shorter.
\<close>

definition serialize_rank ::
  "heap \<times> nat \<times> jsval \<times> nat \<times> addr set +
   heap \<times> nat \<times> jsval list \<times> nat \<times> addr set +
   heap \<times> nat \<times> jsval \<times> string list \<times> nat \<times> (string \<times> tv) list \<times> addr set
   \<Rightarrow> nat \<times> nat" where
  "serialize_rank x =
     (case x of
        Inl (h, maxDepth, v, currentDepth, seen) \<Rightarrow> (2 * (Suc maxDepth - currentDepth), 0)
      | Inr (Inl (h, maxDepth, items, currentDepth, seen)) \<Rightarrow>
          (2 * (Suc maxDepth - Suc currentDepth) + 1, length items)
      | Inr (Inr (h, maxDepth, v, keys, currentDepth, obj, seen)) \<Rightarrow>
          (2 * (Suc maxDepth - Suc currentDepth) + 1, length keys))"

function serialize :: "heap \<Rightarrow> nat \<Rightarrow> jsval \<Rightarrow> nat \<Rightarrow> addr set \<Rightarrow> (thrown + tv) \<times> addr set"
  and serializeItems :: "heap \<Rightarrow> nat \<Rightarrow> jsval list \<Rightarrow> nat \<Rightarrow> addr set \<Rightarrow> (thrown + tv list) \<times> addr set"
  and serializeProps :: "heap \<Rightarrow> nat \<Rightarrow> jsval \<Rightarrow> string list \<Rightarrow> nat \<Rightarrow> (string \<times> tv) list \<Rightarrow> addr set
                           \<Rightarrow> (string \<times> tv) list \<times> addr set"
where
  "serialize h maxDepth v currentDepth seen =
     (if currentDepth > maxDepth then (Inr depthMarker, seen)
      else if v = VNull \<or> v = VUndefined then (Inr (Prim v), seen)
      else case isError h v of
        Inl e \<Rightarrow> (Inl e, seen)
      | Inr True \<Rightarrow> (getErrorDetails h v, seen)
      | Inr False \<Rightarrow>
         (case v of
            VNum n \<Rightarrow>
              (case n of
                 NaN \<Rightarrow> (Inr (str ''NaN''), seen)
               | PosInf \<Rightarrow> (Inr (str ''Infinity''), seen)
               | NegInf \<Rightarrow> (Inr (str ''-Infinity''), seen)
               | Finite r \<Rightarrow> (Inr (Prim v), seen))
          | VSym d \<Rightarrow> (Inr (symbolTag d), seen)
          | Ref a \<Rightarrow>
              if a \<in> seen then (Inr circularMarker, seen)
              else
                (case kind (h a) of
                   KPromise \<Rightarrow> (Inr promiseRecord, seen)
                 | KDate isoString \<Rightarrow> (dateRecord isoString, seen)
                 | KRegExp src flags \<Rightarrow> (Inr (regExpRecord src flags), seen)
                 | KNode n \<Rightarrow> (Inr (domNodeRecord n), seen)
                 | KFunction src \<Rightarrow> (functionRecord h v src, seen)
                 | KArray items \<Rightarrow>
                     (case serializeItems h maxDepth items currentDepth (insert a seen) of
                        (Inl e, seen') \<Rightarrow> (Inl e, seen')
                      | (Inr rs, seen') \<Rightarrow> (Inr (Seq rs), seen'))
                 | _ \<Rightarrow>
                     (case serializeProps h maxDepth v (map fst (own (h a))) currentDepth []
                             (insert a seen) of
                        (obj, seen') \<Rightarrow> (Inr (Rec obj), seen')))
          | _ \<Rightarrow> (Inr (Prim v), seen)))"
| "serializeItems h maxDepth [] currentDepth seen = (Inr [], seen)"
| "serializeItems h maxDepth (item # items) currentDepth seen =
     (case serialize h maxDepth item (currentDepth + 1) seen of
        (Inl e, seen') \<Rightarrow> (Inl e, seen')
      | (Inr r, seen') \<Rightarrow>
          (case serializeItems h maxDepth items currentDepth seen' of
             (Inl e, seen'') \<Rightarrow> (Inl e, seen'')
           | (Inr rs, seen'') \<Rightarrow> (Inr (r # rs), seen'')))"
| "serializeProps h maxDepth v [] currentDepth obj seen = (obj, seen)"
| "serializeProps h maxDepth v (key # keys) currentDepth obj seen =
     (case Get h v key of
        Inl (Thrown msg) \<Rightarrow>
          serializeProps h maxDepth v keys currentDepth
            (assign key (str (''[Unable to serialize: '' @ msg @ '']'')) obj) seen
      | Inr pv \<Rightarrow>
          (case serialize h maxDepth pv (currentDepth + 1) seen of
             (Inl (Thrown msg), seen') \<Rightarrow>
               serializeProps h maxDepth v keys currentDepth
                 (assign key (str (''[Unable to serialize: '' @ msg @ '']'')) obj) seen'
           | (Inr r, seen') \<Rightarrow>
               serializeProps h maxDepth v keys currentDepth (assign key r obj) seen'))"
  by pat_completeness auto

termination
  by (relation "inv_image (less_than <*lex*> less_than) serialize_rank")
     (auto simp: serialize_rank_def)

declare serialize.simps(1) [simp del]

section \<open>serializeForPostMessage\<close>

text \<open>
  Lines 13 to 148. \<^verbatim>\<open>String(arg)\<close> is the host's string coercion; the model takes it as
  the parameter \<open>toStr\<close>, which may throw (an object without \<^verbatim>\<open>toString\<close>, or one whose
  \<^verbatim>\<open>toString\<close> throws). The result is \<open>Inl\<close> when the call raises to its caller. Every
  caller in the source leaves \<^verbatim>\<open>depth\<close> and \<^verbatim>\<open>maxDepth\<close> at their defaults 0 and 3.
\<close>

definition serializeForPostMessage ::
  "(jsval \<Rightarrow> thrown + string) \<Rightarrow> heap \<Rightarrow> jsval \<Rightarrow> nat \<Rightarrow> nat \<Rightarrow> thrown + tv" where
  "serializeForPostMessage toStr h arg depth maxDepth =
     (case serialize h maxDepth arg depth {} of
        (Inr r, seen) \<Rightarrow> Inr r
      | (Inl (Thrown msg), seen) \<Rightarrow>
          (case toStr arg of
             Inl e \<Rightarrow> Inl e
           | Inr s \<Rightarrow>
               Inr (Rec [(''__type'', str ''SerializationError''),
                         (''message'', str msg),
                         (''value'', str s)])))"

section \<open>Predicates of the specification\<close>

text \<open>
  The values a result hands through as they are. A result is transport safe when none of them
  is a symbol or a reference to an object of the input (a function, a host object, or any
  other object that was not rebuilt as a fresh mapping or sequence).
\<close>

fun leaves :: "tv \<Rightarrow> jsval list" where
  "leaves (Prim v) = [v]"
| "leaves (Rec r) = concat (map (\<lambda>(key, t). leaves t) r)"
| "leaves (Seq ts) = concat (map leaves ts)"

fun safeValue :: "jsval \<Rightarrow> bool" where
  "safeValue (VSym d) = False"
| "safeValue (Ref a) = False"
| "safeValue v = True"

definition transportSafe :: "tv \<Rightarrow> bool" where
  "transportSafe t = list_all safeValue (leaves t)"

text \<open>
  The objects that reach \<^verbatim>\<open>seen.add\<close> in line 115: arrays and generic objects that the
  test of line 47 does not take for an error.
\<close>

definition tracked :: "heap \<Rightarrow> addr \<Rightarrow> bool" where
  "tracked h a =
     (isError h (Ref a) = Inr False \<and>
      (case kind (h a) of KArray items \<Rightarrow> True | KObject \<Rightarrow> True | _ \<Rightarrow> False))"

text \<open>The set \<open>seen'\<close> extends \<open>seen\<close> by tracked objects only.\<close>

definition grows :: "heap \<Rightarrow> addr set \<Rightarrow> addr set \<Rightarrow> bool" where
  "grows h seen seen' = (seen \<subseteq> seen' \<and> (\<forall>b\<in>seen' - seen. tracked h b))"

section \<open>Concrete heaps\<close>

text \<open>
  The built-in constructors live at the addresses 10 to 15; an object inherits
  \<^verbatim>\<open>constructor\<close> from its prototype, an error also \<^verbatim>\<open>name\<close>. Every other address of
  \<open>realm\<close> holds an object without prototype and without properties
  (\<^verbatim>\<open>Object.create(null)\<close>).
\<close>

definition ctor :: "string \<Rightarrow> jsobj" where
  "ctor name =
     \<lparr>kind = KFunction (''function '' @ name @ ''() { [native code] }''),
      own = [(''name'', Data (VStr name))],
      inherited = [(''constructor'', Data (Ref 10))]\<rparr>"

definition object :: "(string \<times> slot) list \<Rightarrow> jsobj" where
  "object props =
     \<lparr>kind = KObject, own = props, inherited = [(''constructor'', Data (Ref 11))]\<rparr>"

definition array :: "jsval list \<Rightarrow> jsobj" where
  "array items =
     \<lparr>kind = KArray items, own = [], inherited = [(''constructor'', Data (Ref 12))]\<rparr>"

definition error :: "(string \<times> slot) list \<Rightarrow> jsobj" where
  "error props =
     \<lparr>kind = KError, own = props,
      inherited = [(''name'', Data (VStr ''Error'')), (''constructor'', Data (Ref 13))]\<rparr>"

definition date :: "string option \<Rightarrow> jsobj" where
  "date t = \<lparr>kind = KDate t, own = [], inherited = [(''constructor'', Data (Ref 14))]\<rparr>"

definition node :: "dom_node \<Rightarrow> jsobj" where
  "node n = \<lparr>kind = KNode n, own = [], inherited = [(''constructor'', Data (Ref 15))]\<rparr>"

definition realm :: heap where
  "realm = (\<lambda>a. \<lparr>kind = KObject, own = [], inherited = []\<rparr>)
     (10 := ctor ''Function'', 11 := ctor ''Object'', 12 := ctor ''Array'',
      13 := ctor ''Error'', 14 := ctor ''Date'', 15 := ctor ''Node'')"

text \<open>\<^verbatim>\<open>String(v)\<close> of a plain object.\<close>

definition hostString :: "jsval \<Rightarrow> thrown + string" where
  "hostString v = Inr ''[object Object]''"

text \<open>
  A chain of \<open>n\<close> nested objects below its root at address 20:
  \<^verbatim>\<open>{next: {next: ... {}}}\<close>, the innermost object at depth \<open>n\<close>; and the value it
  serializes to, \<open>n\<close> mappings around an innermost value.
\<close>

definition chain :: "nat \<Rightarrow> heap" where
  "chain n =
     (\<lambda>a. if a < 20 then realm a
          else if a < 20 + n then object [(''next'', Data (Ref (a + 1)))]
          else object [])"

fun nested :: "nat \<Rightarrow> tv \<Rightarrow> tv" where
  "nested 0 t = t"
| "nested (Suc n) t = Rec [(''next'', nested n t)]"


text \<open>\<^verbatim>\<open>d = new Date(0); [d, d]\<close>.\<close>

definition twoDates :: heap where
  "twoDates = realm (0 := array [Ref 1, Ref 1], 1 := date (Some ''1970-01-01T00:00:00.000Z''))"


text \<open>
  \<^verbatim>\<open>[Object.create(null), new Date(NaN)]\<close>. \<^verbatim>\<open>String\<close> of this array joins the string
  coercions of its elements, and the first element has no \<^verbatim>\<open>toString\<close>: the coercion
  throws a \<^verbatim>\<open>TypeError\<close>.
\<close>

definition escapeHeap :: heap where
  "escapeHeap = realm (0 := array [Ref 1, Ref 2], 2 := date None)"

definition escapeString :: "jsval \<Rightarrow> thrown + string" where
  "escapeString v =
     (if v = Ref 0 \<or> v = Ref 1 then Inl (Thrown ''Cannot convert object to primitive value'')
      else Inr ''Invalid Date'')"

text \<open>\<^verbatim>\<open>e = new Error('boom'); e.retry = function retry() {}\<close>.\<close>

definition callbackHeap :: heap where
  "callbackHeap = realm
     (0 := error [(''stack'', Data (VStr ''Error: boom'')), (''message'', Data (VStr ''boom'')),
                  (''retry'', Data (Ref 1))],
      1 := \<lparr>kind = KFunction ''function retry() {}'',
             own = [(''name'', Data (VStr ''retry''))],
             inherited = [(''constructor'', Data (Ref 10))]\<rparr>)"





text \<open>\<^verbatim>\<open>[new Date(NaN), 1]\<close>, whose string coercion is \<^verbatim>\<open>'Invalid Date,1'\<close>.\<close>

definition badDateArray :: heap where
  "badDateArray = realm (0 := array [Ref 1, VNum (Finite 1)], 1 := date None)"

definition badDateString :: "jsval \<Rightarrow> thrown + string" where
  "badDateString v = Inr ''Invalid Date,1''"

text \<open>\<^verbatim>\<open>{get bad() { throw new Error('denied') }, ok: 1}\<close>.\<close>

definition getterHeap :: heap where
  "getterHeap = realm
     (0 := object [(''bad'', Accessor (Inl (Thrown ''denied''))), (''ok'', Data (VNum (Finite 1)))])"

text \<open>A text node, and \<^verbatim>\<open><div id="app"><b>hi</b></div>\<close>.\<close>

definition textNode :: heap where
  "textNode = realm
     (0 := node \<lparr>nodeName = ''#text'', nodeType = 3, node_id = VUndefined,
                  className = VUndefined, isElement = False, innerHTML = ''''\<rparr>)"

definition divNode :: heap where
  "divNode = realm
     (0 := node \<lparr>nodeName = ''DIV'', nodeType = 1, node_id = VStr ''app'',
                  className = VStr '''', isElement = True, innerHTML = ''<b>hi</b>''\<rparr>)"

lemmas heap_defs = ctor_def object_def array_def error_def date_def node_def realm_def

section \<open>Basic facts\<close>

declare isError.simps [simp del]

lemma isError_KError: "kind (h a) = KError \<Longrightarrow> isError h (Ref a) = Inr True"
  by (simp add: isError.simps)

lemma serialize_depth: "m < d \<Longrightarrow> serialize h m v d seen = (Inr depthMarker, seen)"
  by (simp add: serialize.simps(1))


lemma serialize_array:
  "d \<le> m \<Longrightarrow> isError h (Ref a) = Inr False \<Longrightarrow> a \<notin> seen \<Longrightarrow> kind (h a) = KArray items \<Longrightarrow>
   serialize h m (Ref a) d seen =
     (case serializeItems h m items d (insert a seen) of
        (Inl e, seen') \<Rightarrow> (Inl e, seen')
      | (Inr rs, seen') \<Rightarrow> (Inr (Seq rs), seen'))"
  by (simp add: serialize.simps(1))

lemma serialize_object:
  "d \<le> m \<Longrightarrow> isError h (Ref a) = Inr False \<Longrightarrow> a \<notin> seen \<Longrightarrow> kind (h a) = KObject \<Longrightarrow>
   serialize h m (Ref a) d seen =
     (case serializeProps h m (Ref a) (map fst (own (h a))) d [] (insert a seen) of
        (obj, seen') \<Rightarrow> (Inr (Rec obj), seen'))"
  by (simp add: serialize.simps(1))

lemma serialize_primitive:
  "d \<le> m \<Longrightarrow> v = VNull \<or> v = VUndefined \<or> v = VBool b \<or> v = VStr s \<or> v = VNum (Finite r) \<Longrightarrow>
   serialize h m v d seen = (Inr (Prim v), seen)"
  by (auto simp: serialize.simps(1) isError.simps)

lemma serialize_nonfinite:
  "d \<le> m \<Longrightarrow>
   serialize h m (VNum NaN) d seen = (Inr (str ''NaN''), seen) \<and>
   serialize h m (VNum PosInf) d seen = (Inr (str ''Infinity''), seen) \<and>
   serialize h m (VNum NegInf) d seen = (Inr (str ''-Infinity''), seen)"
  by (simp add: serialize.simps(1) isError.simps)







section \<open>Termination\<close>

lemma serialize_call_lowers_rank:
  "serialize_serializeItems_serializeProps_rel y x \<Longrightarrow>
   (serialize_rank y, serialize_rank x) \<in> less_than <*lex*> less_than"
  by (erule serialize_serializeItems_serializeProps_rel.cases)
     (auto simp: serialize_rank_def)

text \<open>
  C4. \<open>serialize\<close> and its two loops terminate on every input, whatever the heap holds (cycles
  and nesting of any depth included): every argument is in the accessible part of the call
  relation. The reason is the depth: every recursive call lowers the rank, whose first
  component is at most \<open>2 * (maxDepth + 1)\<close> for a call of \<open>serialize\<close>, falls with every
  descent to depth \<open>currentDepth + 1\<close> and is 0 above \<open>maxDepth\<close>, where line 39 returns; within
  one loop only the remaining list gets shorter.
\<close>

theorem serialize_terminates:
  "All serialize_serializeItems_serializeProps_dom \<and>
   (\<forall>x y. serialize_serializeItems_serializeProps_rel y x \<longrightarrow>
      (serialize_rank y, serialize_rank x) \<in> less_than <*lex*> less_than) \<and>
   fst (serialize_rank (Inl (h, maxDepth, v, currentDepth, seen))) \<le> 2 * (maxDepth + 1)"
proof -
  have total: "All serialize_serializeItems_serializeProps_dom"
    by (relation "inv_image (less_than <*lex*> less_than) serialize_rank")
       (auto simp: serialize_rank_def)
  have lower: "\<forall>x y. serialize_serializeItems_serializeProps_rel y x \<longrightarrow>
      (serialize_rank y, serialize_rank x) \<in> less_than <*lex*> less_than"
    by (blast intro: serialize_call_lowers_rank)
  have bound: "fst (serialize_rank (Inl (h, maxDepth, v, currentDepth, seen))) \<le> 2 * (maxDepth + 1)"
    by (simp add: serialize_rank_def)
  from total lower bound show ?thesis by blast
qed

theorem serialize_terminates_witness:
  "serialize_serializeItems_serializeProps_rel
     (Inl (twoDates, 3, Ref 1, 0 + 1, {0}))
     (Inr (Inl (twoDates, 3, [Ref 1, Ref 1], 0, {0}))) \<and>
   (serialize_rank (Inl (twoDates, 3, Ref 1, 0 + 1, {0})),
    serialize_rank (Inr (Inl (twoDates, 3, [Ref 1, Ref 1], 0, {0})))) \<in> less_than <*lex*> less_than \<and>
   serialize_serializeItems_serializeProps_dom (Inl (twoDates, 3, Ref 0, 0, {}))"
proof -
  have call: "serialize_serializeItems_serializeProps_rel
     (Inl (twoDates, 3, Ref 1, 0 + 1, {0}))
     (Inr (Inl (twoDates, 3, [Ref 1, Ref 1], 0, {0})))"
    by (rule serialize_serializeItems_serializeProps_rel.intros(4))
  from serialize_terminates [of twoDates 3 "Ref 0" 0 "{}"] call show ?thesis
    by blast
qed

section \<open>The depth bound\<close>

lemma chain_isError: "20 \<le> a \<Longrightarrow> isError (chain n) (Ref a) = Inr False"
  by (simp add: isError.simps chain_def heap_defs)

lemma chain_kind: "20 \<le> a \<Longrightarrow> kind (chain n a) = KObject"
  by (simp add: chain_def heap_defs)

lemma chain_own:
  "20 \<le> a \<Longrightarrow> own (chain n a) = (if a < 20 + n then [(''next'', Data (Ref (a + 1)))] else [])"
  by (simp add: chain_def heap_defs)

lemma chain_next: "20 \<le> a \<Longrightarrow> a < 20 + n \<Longrightarrow> Get (chain n) (Ref a) ''next'' = Inr (Ref (a + 1))"
  by (simp add: chain_def heap_defs)

lemma serialize_chain:
  "d \<le> m \<Longrightarrow> i \<le> n \<Longrightarrow> n - i = k \<Longrightarrow> \<forall>j\<ge>20 + i. j \<notin> seen \<Longrightarrow>
   fst (serialize (chain n) m (Ref (20 + i)) d seen) =
     Inr (if k \<le> m - d then nested k (Rec []) else nested (Suc (m - d)) depthMarker)"
proof (induction k arbitrary: i d seen)
  case 0
  then have i: "i = n" by simp
  have "serialize (chain n) m (Ref (20 + n)) d seen =
        (case serializeProps (chain n) m (Ref (20 + n)) (map fst (own (chain n (20 + n)))) d []
                (insert (20 + n) seen) of
           (obj, seen') \<Rightarrow> (Inr (Rec obj), seen'))"
    using 0 i by (intro serialize_object) (simp_all add: chain_isError chain_kind)
  then show ?case using i by (simp add: chain_own)
next
  case (Suc k)
  then have i: "i < n" and k: "n - Suc i = k" by simp_all
  let ?a = "20 + i"
  have unseen: "?a \<notin> seen" using Suc.prems(4) by simp
  have obj: "serialize (chain n) m (Ref ?a) d seen =
        (case serializeProps (chain n) m (Ref ?a) (map fst (own (chain n ?a))) d []
                (insert ?a seen) of
           (obj, seen') \<Rightarrow> (Inr (Rec obj), seen'))"
    using Suc.prems(1) unseen by (intro serialize_object) (simp_all add: chain_isError chain_kind)
  have keys: "map fst (own (chain n ?a)) = [''next'']"
    using i by (simp add: chain_own)
  have nxt: "Get (chain n) (Ref ?a) ''next'' = Inr (Ref (20 + Suc i))"
    using i chain_next [of ?a n] by simp
  obtain x y where xy: "serialize (chain n) m (Ref (20 + Suc i)) (d + 1) (insert ?a seen) = (x, y)"
    by (cases "serialize (chain n) m (Ref (20 + Suc i)) (d + 1) (insert ?a seen)")
  have x: "x = Inr (if Suc k \<le> m - d then nested k (Rec []) else nested (m - d) depthMarker)"
  proof (cases "d + 1 \<le> m")
    case True
    have "\<forall>j\<ge>20 + Suc i. j \<notin> insert ?a seen" using Suc.prems(4) by auto
    moreover have "Suc i \<le> n" using i by simp
    ultimately
    have "fst (serialize (chain n) m (Ref (20 + Suc i)) (d + 1) (insert ?a seen)) =
          Inr (if k \<le> m - (d + 1) then nested k (Rec [])
               else nested (Suc (m - (d + 1))) depthMarker)"
      using True k by (intro Suc.IH)
    moreover have "Suc (m - (d + 1)) = m - d" and "k \<le> m - (d + 1) \<longleftrightarrow> Suc k \<le> m - d"
      using True by auto
    ultimately show ?thesis using xy by simp
  next
    case False
    with Suc.prems(1) have eq: "m = d" by simp
    then have "serialize (chain n) m (Ref (20 + Suc i)) (d + 1) (insert ?a seen) =
               (Inr depthMarker, insert ?a seen)"
      by (simp add: serialize_depth)
    with xy eq show ?thesis by simp
  qed
  have "fst (serialize (chain n) m (Ref ?a) d seen) =
        Inr (Rec [(''next'', if Suc k \<le> m - d then nested k (Rec []) else nested (m - d) depthMarker)])"
    using obj keys nxt xy x by simp
  then show ?case by simp
qed

lemma nested_clean: "VStr ''[Max Depth Exceeded]'' \<notin> set (leaves (nested n (Rec [])))"
  by (induction n) simp_all

text \<open>
  C5. Whatever the value is (also \<^verbatim>\<open>null\<close>, \<^verbatim>\<open>undefined\<close> or a primitive), a call at a
  depth above \<open>maxDepth\<close> returns \<^verbatim>\<open>'[Max Depth Exceeded]'\<close> at once and leaves the set
  \<^verbatim>\<open>seen\<close> as it was. For every bound, hence for the default 3, the chain whose innermost
  object sits at depth exactly \<open>maxDepth\<close> is serialized in full and no depth marker occurs
  in the result; with one more level, the value beyond the bound becomes the marker.
\<close>

theorem depth_guard:
  "(m < d \<longrightarrow> serialize h m v d seen = (Inr depthMarker, seen)) \<and>
   serializeForPostMessage toStr (chain m) (Ref 20) 0 m = Inr (nested m (Rec [])) \<and>
   VStr ''[Max Depth Exceeded]'' \<notin> set (leaves (nested m (Rec []))) \<and>
   serializeForPostMessage toStr (chain (Suc m)) (Ref 20) 0 m = Inr (nested (Suc m) depthMarker)"
proof -
  have guard: "m < d \<longrightarrow> serialize h m v d seen = (Inr depthMarker, seen)"
    by (simp add: serialize_depth)
  have "fst (serialize (chain m) m (Ref (20 + 0)) 0 {}) = Inr (nested m (Rec []))"
    by (subst serialize_chain [where k = m]) simp_all
  then have full: "serializeForPostMessage toStr (chain m) (Ref 20) 0 m = Inr (nested m (Rec []))"
    by (cases "serialize (chain m) m (Ref 20) 0 {}") (simp add: serializeForPostMessage_def)
  have "fst (serialize (chain (Suc m)) m (Ref (20 + 0)) 0 {}) = Inr (nested (Suc m) depthMarker)"
    by (subst serialize_chain [where k = "Suc m"]) simp_all
  then have cut: "serializeForPostMessage toStr (chain (Suc m)) (Ref 20) 0 m =
                  Inr (nested (Suc m) depthMarker)"
    by (cases "serialize (chain (Suc m)) m (Ref 20) 0 {}") (simp add: serializeForPostMessage_def)
  from guard full nested_clean cut show ?thesis by blast
qed

theorem depth_guard_witness:
  "(3::nat) < 4 \<and> serialize (chain 3) 3 VNull 4 {} = (Inr depthMarker, {}) \<and>
   serializeForPostMessage hostString (chain 3) (Ref 20) 0 3 =
     Inr (Rec [(''next'', Rec [(''next'', Rec [(''next'', Rec [])])])]) \<and>
   serializeForPostMessage hostString (chain 4) (Ref 20) 0 3 =
     Inr (Rec [(''next'', Rec [(''next'', Rec [(''next'',
            Rec [(''next'', str ''[Max Depth Exceeded]'')])])])])"
proof -
  have n3: "nested 3 (Rec []) = Rec [(''next'', Rec [(''next'', Rec [(''next'', Rec [])])])]"
    by (simp add: numeral_3_eq_3)
  have n4: "nested (Suc 3) depthMarker =
     Rec [(''next'', Rec [(''next'', Rec [(''next'', Rec [(''next'', str ''[Max Depth Exceeded]'')])])])]"
    by (simp add: numeral_3_eq_3 depthMarker_def)
  have s4: "Suc 3 = 4" by simp
  from depth_guard [of 3 4 "chain 3" VNull "{}" hostString] n3 n4 s4 show ?thesis by simp
qed

section \<open>Primitive values\<close>

text \<open>
  C6. Within the depth bound (every caller starts at depth 0), a finite number, a string, a
  boolean, \<^verbatim>\<open>null\<close> and \<^verbatim>\<open>undefined\<close> are returned unchanged, and not-a-number and the two
  infinities become the strings \<^verbatim>\<open>'NaN'\<close>, \<^verbatim>\<open>'Infinity'\<close> and \<^verbatim>\<open>'-Infinity'\<close>.
\<close>

theorem primitives_pass_through:
  "d \<le> m \<longrightarrow>
     serializeForPostMessage toStr h (VNum (Finite r)) d m = Inr (Prim (VNum (Finite r))) \<and>
     serializeForPostMessage toStr h (VStr s) d m = Inr (Prim (VStr s)) \<and>
     serializeForPostMessage toStr h (VBool b) d m = Inr (Prim (VBool b)) \<and>
     serializeForPostMessage toStr h VNull d m = Inr (Prim VNull) \<and>
     serializeForPostMessage toStr h VUndefined d m = Inr (Prim VUndefined) \<and>
     serializeForPostMessage toStr h (VNum NaN) d m = Inr (str ''NaN'') \<and>
     serializeForPostMessage toStr h (VNum PosInf) d m = Inr (str ''Infinity'') \<and>
     serializeForPostMessage toStr h (VNum NegInf) d m = Inr (str ''-Infinity'')"
  by (simp add: serializeForPostMessage_def serialize_primitive serialize_nonfinite)

theorem primitives_pass_through_witness:
  "(0::nat) \<le> 3 \<and>
   serializeForPostMessage hostString realm (VNum (Finite 42)) 0 3 = Inr (Prim (VNum (Finite 42))) \<and>
   serializeForPostMessage hostString realm (VStr ''a'') 0 3 = Inr (Prim (VStr ''a'')) \<and>
   serializeForPostMessage hostString realm (VNum NaN) 0 3 = Inr (str ''NaN'')"
  using primitives_pass_through [of 0 3 hostString realm 42 "''a''" True] by simp

section \<open>The set of visited objects\<close>


lemma grows_refl: "grows h s s"
  by (simp add: grows_def)

lemma grows_trans: "grows h s t \<Longrightarrow> grows h t u \<Longrightarrow> grows h s u"
  by (auto simp: grows_def)

lemma grows_insert: "tracked h a \<Longrightarrow> grows h (insert a s) t \<Longrightarrow> grows h s t"
  by (auto simp: grows_def)

lemma seen_grows:
  "grows h seen (snd (serialize h m v d seen))"
  "grows h seen (snd (serializeItems h m items d seen))"
  "grows h seen (snd (serializeProps h m v keys d obj seen))"
proof (induction h m v d seen and h m items d seen and h m v keys d obj seen
       rule: serialize_serializeItems_serializeProps.induct)
  case (1 h maxDepth v currentDepth seen)
  show ?case
  proof (cases "maxDepth < currentDepth \<or> v = VNull \<or> v = VUndefined \<or> isError h v \<noteq> Inr False")
    case True
    then show ?thesis
      by (auto simp: serialize.simps(1) grows_refl split: sum.splits bool.splits)
  next
    case False
    then have F: "\<not> maxDepth < currentDepth" "\<not> (v = VNull \<or> v = VUndefined)" "isError h v = Inr False"
      by auto
    show ?thesis
    proof (cases v)
      case (Ref a)
      show ?thesis
      proof (cases "a \<in> seen")
        case True
        with F Ref show ?thesis by (simp add: serialize.simps(1) grows_refl)
      next
        case False
        show ?thesis
        proof (cases "kind (h a)")
          case KError
          with F Ref show ?thesis by (simp add: isError_KError)
        next
          case (KArray items)
          have tr: "tracked h a" using F Ref KArray by (simp add: tracked_def)
          from "1.IH"(2)[OF F(1) F(2) F(3) refl Ref False KArray]
          have "grows h (insert a seen) (snd (serializeItems h maxDepth items currentDepth (insert a seen)))" .
          from grows_insert[OF tr this] F Ref False KArray show ?thesis
            by (auto simp: serialize_array split: prod.splits sum.splits)
        next
          case KObject
          have tr: "tracked h a" using F Ref KObject by (simp add: tracked_def)
          from "1.IH"(3)[OF F(1) F(2) F(3) refl Ref False KObject]
          have "grows h (insert a seen) (snd (serializeProps h maxDepth v (map fst (own (h a))) currentDepth [] (insert a seen)))" .
          from grows_insert[OF tr this] F Ref False KObject show ?thesis
            by (auto simp: serialize_object split: prod.splits sum.splits)
        qed (use F Ref False in \<open>simp_all add: serialize.simps(1) grows_refl\<close>)
      qed
    qed (use F in \<open>simp_all add: serialize.simps(1) grows_refl split: jsnum.splits\<close>)
  qed
next
  case (2 h maxDepth currentDepth seen)
  then show ?case by (simp add: grows_refl)
next
  case (3 h maxDepth item items currentDepth seen)
  obtain x y where xy: "serialize h maxDepth item (currentDepth + 1) seen = (x, y)"
    by (cases "serialize h maxDepth item (currentDepth + 1) seen")
  have g1: "grows h seen y" using "3.IH"(1) xy by simp
  show ?case
  proof (cases x)
    case (Inl e)
    with xy g1 show ?thesis by simp
  next
    case (Inr r)
    from "3.IH"(2)[OF xy[symmetric] Inr]
    have "grows h y (snd (serializeItems h maxDepth items currentDepth y))" .
    with g1 have "grows h seen (snd (serializeItems h maxDepth items currentDepth y))"
      by (rule grows_trans)
    with xy Inr show ?thesis by (auto split: prod.splits sum.splits)
  qed
next
  case (4 h maxDepth v currentDepth obj seen)
  then show ?case by (simp add: grows_refl)
next
  case (5 h maxDepth v key keys currentDepth obj seen)
  show ?case
  proof (cases "Get h v key")
    case (Inl e)
    obtain msg where e: "e = Thrown msg" by (cases e)
    from "5.IH"(1)[OF Inl e] Inl e show ?thesis by simp
  next
    case (Inr pv)
    obtain x y where xy: "serialize h maxDepth pv (currentDepth + 1) seen = (x, y)"
      by (cases "serialize h maxDepth pv (currentDepth + 1) seen")
    have g1: "grows h seen y" using "5.IH"(2)[OF Inr] xy by simp
    show ?thesis
    proof (cases x)
      case (Inl e)
      obtain msg where e: "e = Thrown msg" by (cases e)
      from "5.IH"(3)[OF Inr xy[symmetric] Inl e] g1 Inr xy Inl e show ?thesis
        by (auto intro: grows_trans)
    next
      case (Inr r)
      from "5.IH"(4)[OF \<open>Get h v key = Inr pv\<close> xy[symmetric] Inr] g1 \<open>Get h v key = Inr pv\<close> xy Inr show ?thesis
        by (auto intro: grows_trans)
    qed
  qed
qed





section \<open>The property loop\<close>

text \<open>
  Every round of the loop of lines 125 to 132 assigns one key and goes on with the rest, whether
  the round failed or not.
\<close>

lemma serializeProps_step:
  "\<exists>obj' seen'.
     serializeProps h m v (key # keys) d obj seen = serializeProps h m v keys d obj' seen' \<and>
     seen \<subseteq> seen'"
proof (cases "Get h v key")
  case (Inl e)
  then show ?thesis by (cases e) auto
next
  case (Inr pv)
  obtain x y where xy: "serialize h m pv (d + 1) seen = (x, y)"
    by (cases "serialize h m pv (d + 1) seen")
  have "grows h seen (snd (serialize h m pv (d + 1) seen))"
    by (rule seen_grows(1))
  with xy have sub: "seen \<subseteq> y" by (simp add: grows_def)
  show ?thesis
  proof (cases x)
    case (Inl e)
    with Inr xy sub show ?thesis by (cases e) auto
  next
    case r: (Inr r)
    with Inr xy sub show ?thesis by auto
  qed
qed

lemma serializeProps_other:
  "key \<notin> set keys \<Longrightarrow> map_of (fst (serializeProps h m v keys d obj seen)) key = map_of obj key"
proof (induction keys arbitrary: obj seen)
  case Nil
  show ?case by simp
next
  case (Cons k keys)
  then have ne: "k \<noteq> key" and rest: "key \<notin> set keys" by auto
  show ?case
    using ne by (auto simp: Cons.IH [OF rest] update_conv' split: sum.splits thrown.splits prod.splits)
qed

lemma serializeProps_keys:
  "fst ` set (fst (serializeProps h m v keys d obj seen)) = fst ` set obj \<union> set keys"
proof (induction keys arbitrary: obj seen)
  case Nil
  show ?case by simp
next
  case (Cons k keys)
  show ?case
    by (auto simp: Cons.IH dom_update split: sum.splits thrown.splits prod.splits)
qed

lemma serializeProps_getter_throws:
  assumes "Get h v key = Inl (Thrown msg)"
  shows "key \<in> set keys \<Longrightarrow>
         map_of (fst (serializeProps h m v keys d obj seen)) key =
           Some (str (''[Unable to serialize: '' @ msg @ '']''))"
proof (induction keys arbitrary: obj seen)
  case Nil
  then show ?case by simp
next
  case (Cons k keys)
  show ?case
  proof (cases "k = key")
    case True
    with assms
    have step: "serializeProps h m v (k # keys) d obj seen =
                serializeProps h m v keys d
                  (assign key (str (''[Unable to serialize: '' @ msg @ '']'')) obj) seen"
      by simp
    show ?thesis
    proof (cases "key \<in> set keys")
      case True
      with step Cons.IH show ?thesis by simp
    next
      case False
      with step show ?thesis by (simp add: serializeProps_other update_conv')
    qed
  next
    case False
    with Cons.prems have mem: "key \<in> set keys" by simp
    obtain obj' seen' where
      step: "serializeProps h m v (k # keys) d obj seen = serializeProps h m v keys d obj' seen'"
      using serializeProps_step by blast
    from Cons.IH [OF mem] step show ?thesis by simp
  qed
qed

section \<open>Circular references\<close>






section \<open>Failures inside a composite value\<close>

text \<open>
  A generic object within the depth bound always yields a mapping with exactly the own keys of
  the object. Whatever its siblings do, a property whose getter throws yields the fallback
  string with the message of the failure, and a property that holds a primitive value (below
  the depth bound) yields that value.
\<close>

lemma serializeProps_primitive:
  assumes "Get h v key = Inr pv" and "d < m"
    and "pv = VNull \<or> pv = VUndefined \<or> pv = VBool b \<or> pv = VStr s \<or> pv = VNum (Finite r)"
  shows "key \<in> set keys \<Longrightarrow>
         map_of (fst (serializeProps h m v keys d obj seen)) key = Some (Prim pv)"
proof (induction keys arbitrary: obj seen)
  case Nil
  then show ?case by simp
next
  case (Cons k keys)
  show ?case
  proof (cases "k = key")
    case True
    have "serialize h m pv (d + 1) seen = (Inr (Prim pv), seen)"
      using assms(2,3) by (intro serialize_primitive) auto
    with True assms(1)
    have step: "serializeProps h m v (k # keys) d obj seen =
                serializeProps h m v keys d (assign key (Prim pv) obj) seen"
      by simp
    show ?thesis
    proof (cases "key \<in> set keys")
      case True
      with step Cons.IH show ?thesis by simp
    next
      case False
      with step show ?thesis by (simp add: serializeProps_other update_conv')
    qed
  next
    case False
    with Cons.prems have mem: "key \<in> set keys" by simp
    obtain obj' seen' where
      step: "serializeProps h m v (k # keys) d obj seen = serializeProps h m v keys d obj' seen'"
      using serializeProps_step by blast
    from Cons.IH [OF mem] step show ?thesis by simp
  qed
qed

lemma object_failure_isolated:
  assumes "tracked h a" and "kind (h a) = KObject" and "d \<le> m" and "a \<notin> seen"
  shows "\<exists>r. fst (serialize h m (Ref a) d seen) = Inr (Rec r) \<and>
           fst ` set r = fst ` set (own (h a)) \<and>
           (\<forall>key msg. key \<in> fst ` set (own (h a)) \<and> Get h (Ref a) key = Inl (Thrown msg) \<longrightarrow>
              map_of r key = Some (str (''[Unable to serialize: '' @ msg @ '']''))) \<and>
           (\<forall>key pv. d < m \<and> key \<in> fst ` set (own (h a)) \<and> Get h (Ref a) key = Inr pv \<and>
              (pv = VNull \<or> pv = VUndefined \<or> (\<exists>b. pv = VBool b) \<or> (\<exists>s. pv = VStr s) \<or>
               (\<exists>r. pv = VNum (Finite r))) \<longrightarrow>
              map_of r key = Some (Prim pv))"
proof -
  let ?p = "serializeProps h m (Ref a) (map fst (own (h a))) d [] (insert a seen)"
  from assms have "fst (serialize h m (Ref a) d seen) = Inr (Rec (fst ?p))"
    by (simp add: serialize_object tracked_def split: prod.splits)
  moreover have "fst ` set (fst ?p) = fst ` set (own (h a))"
    by (simp add: serializeProps_keys)
  moreover have "\<forall>key msg. key \<in> fst ` set (own (h a)) \<and> Get h (Ref a) key = Inl (Thrown msg) \<longrightarrow>
              map_of (fst ?p) key = Some (str (''[Unable to serialize: '' @ msg @ '']''))"
  proof (intro allI impI)
    fix key msg
    assume k: "key \<in> fst ` set (own (h a)) \<and> Get h (Ref a) key = Inl (Thrown msg)"
    then have thrown: "Get h (Ref a) key = Inl (Thrown msg)" ..
    from k have mem: "key \<in> set (map fst (own (h a)))" by (simp del: Get.simps)
    from thrown mem
    show "map_of (fst ?p) key = Some (str (''[Unable to serialize: '' @ msg @ '']''))"
      by (rule serializeProps_getter_throws)
  qed
  moreover have "\<forall>key pv. d < m \<and> key \<in> fst ` set (own (h a)) \<and> Get h (Ref a) key = Inr pv \<and>
              (pv = VNull \<or> pv = VUndefined \<or> (\<exists>b. pv = VBool b) \<or> (\<exists>s. pv = VStr s) \<or>
               (\<exists>r. pv = VNum (Finite r))) \<longrightarrow>
              map_of (fst ?p) key = Some (Prim pv)"
  proof (intro allI impI)
    fix key pv
    assume k: "d < m \<and> key \<in> fst ` set (own (h a)) \<and> Get h (Ref a) key = Inr pv \<and>
              (pv = VNull \<or> pv = VUndefined \<or> (\<exists>b. pv = VBool b) \<or> (\<exists>s. pv = VStr s) \<or>
               (\<exists>r. pv = VNum (Finite r)))"
    then have val: "Get h (Ref a) key = Inr pv" and below: "d < m" by blast+
    from k have mem: "key \<in> set (map fst (own (h a)))" by (simp del: Get.simps)
    from k obtain b s r where
      "pv = VNull \<or> pv = VUndefined \<or> pv = VBool b \<or> pv = VStr s \<or> pv = VNum (Finite r)"
      by blast
    with val below show "map_of (fst ?p) key = Some (Prim pv)"
      using mem by (rule serializeProps_primitive)
  qed
  ultimately show ?thesis by blast
qed

text \<open>
  C8. The claim is that a failing property or element is replaced in place and its siblings
  keep their values, for objects and for arrays. The loop over the properties of an object
  does so (second conjunct: the getter of \<^verbatim>\<open>bad\<close> throws, \<^verbatim>\<open>ok\<close> keeps its value). The
  \<^verbatim>\<open>map\<close> over the elements of an array has no \<^verbatim>\<open>try\<close>: for \<^verbatim>\<open>[new Date(NaN), 1]\<close>
  the failure of the first element aborts the whole call, and the result is the
  \<^verbatim>\<open>SerializationError\<close> record of the call boundary, without the element \<^verbatim>\<open>1\<close>.
\<close>

theorem array_element_failure_aborts:
  "serializeForPostMessage badDateString badDateArray (Ref 0) 0 3 =
     Inr (Rec [(''__type'', str ''SerializationError''),
               (''message'', str ''Invalid time value''),
               (''value'', str ''Invalid Date,1'')]) \<and>
   serializeForPostMessage hostString getterHeap (Ref 0) 0 3 =
     Inr (Rec [(''bad'', str ''[Unable to serialize: denied]''),
               (''ok'', Prim (VNum (Finite 1)))])"
  by (simp add: serializeForPostMessage_def serialize.simps(1) isError.simps badDateArray_def
      badDateString_def getterHeap_def dateRecord_def heap_defs)

section \<open>Error records\<close>





section \<open>What the result is made of\<close>

text \<open>
  C2. The claim is that no function, symbol or host object occurs anywhere in the result, also
  not inside an \<^verbatim>\<open>Error\<close> record. Line 28 copies \<^verbatim>\<open>error[key]\<close> as it is, where the
  loop over a generic object (line 128) serializes the property value: an error that carries a
  function in an extra property yields a record that holds the function itself.
\<close>

theorem error_record_leaks_function:
  "serializeForPostMessage hostString callbackHeap (Ref 0) 0 3 =
     Inr (Rec [(''__type'', str ''Error''), (''name'', str ''Error''),
               (''message'', str ''boom''), (''stack'', str ''Error: boom''),
               (''retry'', Prim (Ref 1))]) \<and>
   kind (callbackHeap 1) = KFunction ''function retry() {}'' \<and>
   \<not> transportSafe (Rec [(''__type'', str ''Error''), (''name'', str ''Error''),
               (''message'', str ''boom''), (''stack'', str ''Error: boom''),
               (''retry'', Prim (Ref 1))])"
  by (simp add: serializeForPostMessage_def serialize.simps(1) isError.simps callbackHeap_def
      getErrorDetails_def transportSafe_def heap_defs)

section \<open>DOM nodes\<close>

text \<open>
  C9, as stated, fails: the object literal of lines 97 to 104 always has the keys \<^verbatim>\<open>id\<close>,
  \<^verbatim>\<open>className\<close> and \<^verbatim>\<open>innerHTML\<close>. For a text node, which provides none of the three,
  the record holds each of them with the value \<^verbatim>\<open>undefined\<close>; no field is left out.
\<close>

theorem dom_node_fields_counterexample:
  "serializeForPostMessage hostString textNode (Ref 0) 0 3 =
     Inr (Rec [(''__type'', str ''DOMNode''), (''nodeName'', str ''#text''),
               (''nodeType'', Prim (VNum (Finite 3))),
               (''id'', Prim VUndefined), (''className'', Prim VUndefined),
               (''innerHTML'', Prim VUndefined)])"
  by (simp add: serializeForPostMessage_def serialize.simps(1) isError.simps textNode_def
      domNodeRecord_def heap_defs)

text \<open>
  C9, amended. For a DOM node that line 47 does not take for an error, the result is a record
  tagged \<^verbatim>\<open>'DOMNode'\<close> with the node name and the node type code and with the three further
  fields in every case: \<^verbatim>\<open>id\<close> and \<^verbatim>\<open>className\<close> hold the node's value when that is
  truthy, \<^verbatim>\<open>innerHTML\<close> holds the markup when the node is an element, and each of them is
  \<^verbatim>\<open>undefined\<close> otherwise.
\<close>

theorem dom_node_fields:
  assumes "kind (h a) = KNode n" and "isError h (Ref a) = Inr False" and "d \<le> m"
  shows "serializeForPostMessage toStr h (Ref a) d m =
     Inr (Rec [(''__type'', str ''DOMNode''),
               (''nodeName'', str (nodeName n)),
               (''nodeType'', Prim (VNum (Finite (real (nodeType n))))),
               (''id'', Prim (if truthy (node_id n) then node_id n else VUndefined)),
               (''className'', Prim (if truthy (className n) then className n else VUndefined)),
               (''innerHTML'', Prim (if isElement n then VStr (innerHTML n) else VUndefined))])"
  using assms
  by (simp add: serializeForPostMessage_def serialize.simps(1) domNodeRecord_def)

theorem dom_node_fields_witness:
  "kind (divNode 0) =
     KNode \<lparr>nodeName = ''DIV'', nodeType = 1, node_id = VStr ''app'',
            className = VStr '''', isElement = True, innerHTML = ''<b>hi</b>''\<rparr> \<and>
   isError divNode (Ref 0) = Inr False \<and> (0::nat) \<le> 3 \<and>
   serializeForPostMessage hostString divNode (Ref 0) 0 3 =
     Inr (Rec [(''__type'', str ''DOMNode''), (''nodeName'', str ''DIV''),
               (''nodeType'', Prim (VNum (Finite 1))), (''id'', str ''app''),
               (''className'', Prim VUndefined), (''innerHTML'', str ''<b>hi</b>'')])"
proof -
  have k: "kind (divNode 0) =
     KNode \<lparr>nodeName = ''DIV'', nodeType = 1, node_id = VStr ''app'',
            className = VStr '''', isElement = True, innerHTML = ''<b>hi</b>''\<rparr>"
    by (simp add: divNode_def heap_defs)
  have e: "isError divNode (Ref 0) = Inr False"
    by (simp add: isError.simps divNode_def heap_defs)
  have le: "(0::nat) \<le> 3" by simp
  from dom_node_fields [OF k e le, of hostString] k e le show ?thesis by simp
qed

section \<open>The call boundary\<close>

text \<open>
  When \<^verbatim>\<open>String(arg)\<close> returns, the \<^verbatim>\<open>catch\<close> of line 141 turns every failure of
  \<open>serialize\<close> into a record.
\<close>

lemma serializeForPostMessage_boundary:
  "toStr arg = Inr s \<Longrightarrow> \<exists>r. serializeForPostMessage toStr h arg d m = Inr r"
  by (auto simp: serializeForPostMessage_def split: prod.splits sum.splits thrown.splits)

text \<open>The call raises exactly when \<open>serialize\<close> throws and the string coercion throws too.\<close>

lemma serializeForPostMessage_raises_iff:
  "serializeForPostMessage toStr h arg d m = Inl e \<longleftrightarrow>
   (\<exists>e'. fst (serialize h m arg d {}) = Inl e') \<and> toStr arg = Inl e"
  by (auto simp: serializeForPostMessage_def split: prod.splits sum.splits thrown.splits)

text \<open>
  C1. The claim is that \<open>serializeForPostMessage\<close> never raises. The handler of line 141
  evaluates \<^verbatim>\<open>String(arg)\<close> outside of any \<^verbatim>\<open>try\<close>. For
  \<^verbatim>\<open>[Object.create(null), new Date(NaN)]\<close> the recursive serialization throws the
  \<^verbatim>\<open>RangeError\<close> of \<^verbatim>\<open>toISOString\<close> (the \<^verbatim>\<open>map\<close> of line 118 has no
  \<^verbatim>\<open>try\<close>), and the string coercion of the array throws a \<^verbatim>\<open>TypeError\<close> in the
  handler: the call raises to its caller.
\<close>

theorem catch_handler_raises:
  "fst (serialize escapeHeap 3 (Ref 0) 0 {}) = Inl (Thrown ''Invalid time value'') \<and>
   serializeForPostMessage escapeString escapeHeap (Ref 0) 0 3 =
     Inl (Thrown ''Cannot convert object to primitive value'')"
  by (simp add: serializeForPostMessage_def serialize.simps(1) isError.simps escapeHeap_def
      escapeString_def dateRecord_def heap_defs)

end
